theory Spec2Isabelle
  imports Main
begin

section \<open>markupflow: values, escaping and attribute names\<close>

text \<open>
  Python strings are modelled as \<open>string\<close>; each \<open>char\<close> stands for one code point
  of the range U+0000..U+00FF. The functions below that classify characters
  (\<open>is_word\<close> for the regular expression class \<open>\w\<close>, \<open>lower_char\<close> for
  \<open>str.lower\<close>) follow Python on that range.
\<close>

subsection \<open>Attribute values\<close>

text \<open>
  \<open>AttrValue = str | int | float | bool | None\<close>. A float is carried by the text
  \<open>str\<close> gives for it; the only floats that are false as a condition are the two
  zeros, whose texts are \<open>0.0\<close> and \<open>-0.0\<close>.
\<close>

datatype attr_value = VNone | VStr string | VInt int | VBool bool | VFloat string

fun digits :: "nat \<Rightarrow> string" where
  "digits n =
     (if n < 10 then [''0123456789'' ! n]
      else digits (n div 10) @ [''0123456789'' ! (n mod 10)])"

declare digits.simps [simp del]

definition str_int :: "int \<Rightarrow> string" where
  "str_int i = (if i < 0 then CHR ''-'' # digits (nat (- i)) else digits (nat i))"

fun py_str :: "attr_value \<Rightarrow> string" where
  "py_str VNone = ''None''"
| "py_str (VStr s) = s"
| "py_str (VInt i) = str_int i"
| "py_str (VBool b) = (if b then ''True'' else ''False'')"
| "py_str (VFloat s) = s"

fun truthy :: "attr_value \<Rightarrow> bool" where
  "truthy VNone = False"
| "truthy (VStr s) = (s \<noteq> [])"
| "truthy (VInt i) = (i \<noteq> 0)"
| "truthy (VBool b) = b"
| "truthy (VFloat s) = (s \<noteq> ''0.0'' \<and> s \<noteq> ''-0.0'')"

text \<open>Python's \<open>a or b\<close>: the first operand when it is true, else the second.\<close>

definition py_or :: "attr_value \<Rightarrow> attr_value \<Rightarrow> attr_value" where
  "py_or a b = (if truthy a then a else b)"

subsection \<open>Escaping\<close>

text \<open>
  \<open>html.escape(s, quote)\<close> is a chain of \<open>str.replace\<close> calls, the ampersand first.
\<close>

definition replace_char :: "char \<Rightarrow> string \<Rightarrow> string \<Rightarrow> string" where
  "replace_char c r s = concat (map (\<lambda>x. if x = c then r else [x]) s)"

definition html_escape :: "string \<Rightarrow> bool \<Rightarrow> string" where
  "html_escape s quote =
     (let s1 = replace_char (CHR ''&'') ''&amp;'' s;
          s2 = replace_char (CHR ''<'') ''&lt;'' s1;
          s3 = replace_char (CHR ''>'') ''&gt;'' s2
      in if quote
         then replace_char (CHR 0x27) ''&#x27;'' (replace_char (CHR 0x22) ''&quot;'' s3)
         else s3)"

definition escape_attr_value :: "attr_value \<Rightarrow> string" where
  "escape_attr_value v = (if v = VNone then [] else html_escape (py_str v) True)"

definition escape_text :: "attr_value \<Rightarrow> string" where
  "escape_text t = (if t = VNone then [] else html_escape (py_str t) False)"

subsection \<open>Attribute-name conversion\<close>

text \<open>
  \<open>\w\<close> in a \<open>str\<close> pattern: the alphanumeric code points and the underscore.
\<close>

definition is_word :: "char \<Rightarrow> bool" where
  "is_word c =
     (let n = (of_char c :: nat)
      in (48 \<le> n \<and> n \<le> 57) \<or> (65 \<le> n \<and> n \<le> 90) \<or> n = 95 \<or> (97 \<le> n \<and> n \<le> 122)
         \<or> n = 170 \<or> n = 178 \<or> n = 179 \<or> n = 181 \<or> n = 185 \<or> n = 186
         \<or> n = 188 \<or> n = 189 \<or> n = 190
         \<or> (192 \<le> n \<and> n \<le> 214) \<or> (216 \<le> n \<and> n \<le> 246) \<or> 248 \<le> n)"

text \<open>
  \<open>_ATTR_NAME_PATTERN.sub(r"\1-\2", name)\<close> with the pattern \<open>(\w)_(\w)\<close>: the
  scan goes left to right; a match at the current position is rewritten and the scan
  resumes behind its three characters, otherwise one character is copied.
\<close>

fun attr_name_sub :: "string \<Rightarrow> string" where
  "attr_name_sub (a # b # c # rest) =
     (if is_word a \<and> b = CHR ''_'' \<and> is_word c
      then a # CHR ''-'' # c # attr_name_sub rest
      else a # attr_name_sub (b # c # rest))"
| "attr_name_sub s = s"

definition endswith_underscore :: "string \<Rightarrow> bool" where
  "endswith_underscore name = (name \<noteq> [] \<and> last name = CHR ''_'')"

text \<open>
  \<open>_convert_attr_name\<close>. The source keeps the results in a dictionary keyed by the
  input; every entry is the value computed here, so the cache does not show in the
  result.
\<close>

definition convert_attr_name :: "string \<Rightarrow> string" where
  "convert_attr_name name =
     (if name = ''class_'' \<or> name = ''classes'' then ''class''
      else if endswith_underscore name then butlast name
      else attr_name_sub name)"

text \<open>No two underscores exactly two positions apart.\<close>

fun spaced :: "string \<Rightarrow> bool" where
  "spaced (a # b # c # rest) = (\<not> (a = CHR ''_'' \<and> c = CHR ''_'') \<and> spaced (b # c # rest))"
| "spaced s = True"

section \<open>Tag contexts and fragments\<close>

datatype error = TagAlreadyOpenedError | NoTagContextError | UnclosedTagsError | IndexError

subsection \<open>Dictionaries and joins\<close>

text \<open>
  A \<open>dict\<close> keeps its keys in insertion order: an assignment to a key that is present
  replaces the value where it stands, an assignment to a new key adds it at the end.
  \<open>dict.get\<close> gives \<open>None\<close> for a missing key.
\<close>

fun dict_set :: "(string \<times> attr_value) list \<Rightarrow> string \<Rightarrow> attr_value \<Rightarrow> (string \<times> attr_value) list" where
  "dict_set [] k v = [(k, v)]"
| "dict_set ((k', v') # d) k v = (if k' = k then (k', v) # d else (k', v') # dict_set d k v)"

fun dict_get :: "(string \<times> attr_value) list \<Rightarrow> string \<Rightarrow> attr_value" where
  "dict_get [] k = VNone"
| "dict_get ((k', v') # d) k = (if k' = k then v' else dict_get d k)"

fun join :: "string \<Rightarrow> string list \<Rightarrow> string" where
  "join sep [] = []"
| "join sep [x] = x"
| "join sep (x # y # ys) = x @ sep @ join sep (y # ys)"

subsection \<open>The objects\<close>

text \<open>
  Tag contexts and fragments are objects that refer to each other, so they live in a
  store and are named by their addresses. \<open>ctx_fragment\<close> is the \<open>_fragment\<close>
  reference of a context; \<open>context_stack\<close> holds addresses of contexts. A Python list
  used as a stack grows at its end: \<open>append\<close> is \<open>xs @ [x]\<close>, \<open>pop\<close> removes
  \<open>last xs\<close> and raises \<open>IndexError\<close> on the empty list.
\<close>

record tag_context =
  ctx_fragment :: nat
  tag_name :: string
  self_closing :: bool
  attrs :: "(string \<times> attr_value) list"
  opened :: bool

record fragment =
  parts :: "string list"
  tag_stack :: "string list"
  context_stack :: "nat list"

record world =
  fragments :: "nat \<Rightarrow> fragment"
  contexts :: "nat \<Rightarrow> tag_context"
  next_fragment :: nat
  next_context :: nat

definition init_world :: world where
  "init_world =
     \<lparr>fragments = (\<lambda>_. \<lparr>parts = [], tag_stack = [], context_stack = []\<rparr>),
      contexts = (\<lambda>_. \<lparr>ctx_fragment = 0, tag_name = [], self_closing = False,
                          attrs = [], opened = False\<rparr>),
      next_fragment = 0, next_context = 0\<rparr>"

subsection \<open>\<open>_TagContext\<close>\<close>

definition render_attr :: "string \<times> attr_value \<Rightarrow> string" where
  \<open>render_attr kv = convert_attr_name (fst kv) @ ''="'' @ escape_attr_value (snd kv) @ ''"''\<close>

definition attr_str :: "(string \<times> attr_value) list \<Rightarrow> string" where
  "attr_str d =
     (if d \<noteq> []
      then '' '' @ join '' '' (map render_attr (filter (\<lambda>kv. snd kv \<noteq> VNone) d))
      else [])"

definition opening_tag :: "tag_context \<Rightarrow> string" where
  "opening_tag c =
     (if self_closing c then ''<'' @ tag_name c @ attr_str (attrs c) @ '' />''
      else ''<'' @ tag_name c @ attr_str (attrs c) @ ''>'')"

definition append_part :: "world \<Rightarrow> nat \<Rightarrow> string \<Rightarrow> world" where
  "append_part w fid s =
     w\<lparr>fragments := (fragments w)
          (fid := (fragments w fid)\<lparr>parts := parts (fragments w fid) @ [s]\<rparr>)\<rparr>"

definition ensure_opened :: "world \<Rightarrow> nat \<Rightarrow> world" where
  "ensure_opened w cid =
     (let c = contexts w cid
      in if \<not> opened c
         then let c' = c\<lparr>opened := True\<rparr>;
                  w1 = w\<lparr>contexts := (contexts w)(cid := c')\<rparr>
              in append_part w1 (ctx_fragment c') (opening_tag c')
         else w)"

definition add_attr :: "world \<Rightarrow> nat \<Rightarrow> string \<Rightarrow> attr_value \<Rightarrow> (error + unit) \<times> world" where
  "add_attr w cid name v =
     (let c = contexts w cid
      in if opened c then (Inl TagAlreadyOpenedError, w)
         else (Inr (), w\<lparr>contexts := (contexts w)
                 (cid := c\<lparr>attrs := dict_set (attrs c) name v\<rparr>)\<rparr>))"

definition add_class :: "world \<Rightarrow> nat \<Rightarrow> string \<Rightarrow> (error + unit) \<times> world" where
  "add_class w cid class_name =
     (let c = contexts w cid
      in if opened c then (Inl TagAlreadyOpenedError, w)
         else let existing_class = py_or (dict_get (attrs c) ''class_'') (dict_get (attrs c) ''class'');
                  new_value = (if truthy existing_class
                               then VStr (py_str existing_class @ '' '' @ class_name)
                               else VStr class_name)
              in (Inr (), w\<lparr>contexts := (contexts w)
                     (cid := c\<lparr>attrs := dict_set (attrs c) ''class_'' new_value\<rparr>)\<rparr>))"

definition ctx_enter :: "world \<Rightarrow> nat \<Rightarrow> world" where
  "ctx_enter w cid =
     (let c = contexts w cid; fid = ctx_fragment c; f = fragments w fid
      in if \<not> self_closing c
         then w\<lparr>fragments := (fragments w)
                (fid := f\<lparr>tag_stack := tag_stack f @ [tag_name c],
                          context_stack := context_stack f @ [cid]\<rparr>)\<rparr>
         else ensure_opened w cid)"

definition ctx_exit :: "world \<Rightarrow> nat \<Rightarrow> (error + unit) \<times> world" where
  "ctx_exit w cid =
     (let c = contexts w cid
      in if \<not> self_closing c
         then let w1 = ensure_opened w cid;
                  fid = ctx_fragment c;
                  f1 = fragments w1 fid
              in if tag_stack f1 = [] then (Inl IndexError, w1)
                 else let closing_tag = last (tag_stack f1);
                          f2 = f1\<lparr>tag_stack := butlast (tag_stack f1),
                                  parts := parts f1 @ [''</'' @ closing_tag @ ''>'']\<rparr>
                      in if context_stack f2 = []
                         then (Inl IndexError, w1\<lparr>fragments := (fragments w1)(fid := f2)\<rparr>)
                         else (Inr (), w1\<lparr>fragments := (fragments w1)
                                 (fid := f2\<lparr>context_stack := butlast (context_stack f2)\<rparr>)\<rparr>)
         else (Inr (), w))"

subsection \<open>\<open>Fragment\<close>\<close>

definition frag_init :: "world \<Rightarrow> nat \<times> world" where
  "frag_init w =
     (next_fragment w,
      w\<lparr>fragments := (fragments w)
           (next_fragment w := \<lparr>parts = [], tag_stack = [], context_stack = []\<rparr>),
        next_fragment := Suc (next_fragment w)\<rparr>)"

text \<open>\<open>str.lower\<close> on the code points below 256.\<close>

definition lower_char :: "char \<Rightarrow> char" where
  "lower_char c =
     (let n = (of_char c :: nat)
      in if (65 \<le> n \<and> n \<le> 90) \<or> (192 \<le> n \<and> n \<le> 222 \<and> n \<noteq> 215)
         then char_of (n + 32) else c)"

definition lower :: "string \<Rightarrow> string" where
  "lower s = map lower_char s"

definition void_elements :: "string list" where
  "void_elements =
     [''area'', ''base'', ''br'', ''col'', ''embed'', ''hr'', ''img'', ''input'',
      ''link'', ''meta'', ''param'', ''source'', ''track'', ''wbr'']"

definition is_void :: "string \<Rightarrow> bool" where
  "is_void name = (lower name \<in> set void_elements)"

text \<open>The step every writing method starts with: open the innermost context, if any.\<close>

definition open_current :: "world \<Rightarrow> nat \<Rightarrow> world" where
  "open_current w fid =
     (if context_stack (fragments w fid) \<noteq> []
      then ensure_opened w (last (context_stack (fragments w fid)))
      else w)"

definition frag_tag :: "world \<Rightarrow> nat \<Rightarrow> string \<Rightarrow> (string \<times> attr_value) list \<Rightarrow> nat \<times> world" where
  "frag_tag w fid name d =
     (let w1 = open_current w fid;
          context = \<lparr>ctx_fragment = fid, tag_name = name, self_closing = is_void name,
                     attrs = d, opened = False\<rparr>
      in (next_context w1,
          w1\<lparr>contexts := (contexts w1)(next_context w1 := context),
             next_context := Suc (next_context w1)\<rparr>))"

definition frag_text :: "world \<Rightarrow> nat \<Rightarrow> attr_value \<Rightarrow> world" where
  "frag_text w fid content =
     (if content \<noteq> VNone then append_part (open_current w fid) fid (escape_text content)
      else w)"

definition frag_raw :: "world \<Rightarrow> nat \<Rightarrow> attr_value \<Rightarrow> world" where
  "frag_raw w fid content =
     (if content \<noteq> VNone then append_part (open_current w fid) fid (py_str content)
      else w)"

definition frag_attr :: "world \<Rightarrow> nat \<Rightarrow> string \<Rightarrow> attr_value \<Rightarrow> (error + unit) \<times> world" where
  "frag_attr w fid name v =
     (if context_stack (fragments w fid) = [] then (Inl NoTagContextError, w)
      else add_attr w (last (context_stack (fragments w fid))) name v)"

definition frag_classes :: "world \<Rightarrow> nat \<Rightarrow> string \<Rightarrow> (error + unit) \<times> world" where
  "frag_classes w fid class_name =
     (if context_stack (fragments w fid) = [] then (Inl NoTagContextError, w)
      else add_class w (last (context_stack (fragments w fid))) class_name)"

definition frag_render :: "world \<Rightarrow> nat \<Rightarrow> (error + string) \<times> world" where
  "frag_render w fid =
     (if tag_stack (fragments w fid) \<noteq> [] then (Inl UnclosedTagsError, w)
      else (Inr (concat (parts (fragments w fid))), w))"

definition frag_clear :: "world \<Rightarrow> nat \<Rightarrow> world" where
  "frag_clear w fid =
     w\<lparr>fragments := (fragments w)
          (fid := (fragments w fid)\<lparr>parts := [], tag_stack := [], context_stack := []\<rparr>)\<rparr>"

definition frag_str :: "world \<Rightarrow> nat \<Rightarrow> (error + string) \<times> world" where
  "frag_str w fid = frag_render w fid"

text \<open>\<open>Fragment.fragment(other)\<close>: the receiver is \<open>fid\<close>, the argument \<open>other\<close>.\<close>

definition frag_fragment :: "world \<Rightarrow> nat \<Rightarrow> nat \<Rightarrow> (error + unit) \<times> world" where
  "frag_fragment w fid other =
     (let w1 = open_current w fid
      in case frag_render w1 other of
           (Inl e, w2) \<Rightarrow> (Inl e, w2)
         | (Inr s, w2) \<Rightarrow> (Inr (), append_part w2 fid s))"

text \<open>
  \<open>with self.tag(name, **attrs): pass\<close>, the body of the shortcuts \<open>img\<close>, \<open>br\<close>
  and \<open>hr\<close>.
\<close>

definition with_pass :: "world \<Rightarrow> nat \<Rightarrow> string \<Rightarrow> (string \<times> attr_value) list \<Rightarrow> (error + unit) \<times> world" where
  "with_pass w fid name d =
     (case frag_tag w fid name d of (cid, w1) \<Rightarrow> ctx_exit (ctx_enter w1 cid) cid)"

definition frag_img :: "world \<Rightarrow> nat \<Rightarrow> (string \<times> attr_value) list \<Rightarrow> (error + unit) \<times> world" where
  "frag_img w fid d = with_pass w fid ''img'' d"

definition frag_br :: "world \<Rightarrow> nat \<Rightarrow> (string \<times> attr_value) list \<Rightarrow> (error + unit) \<times> world" where
  "frag_br w fid d = with_pass w fid ''br'' d"

definition frag_hr :: "world \<Rightarrow> nat \<Rightarrow> (string \<times> attr_value) list \<Rightarrow> (error + unit) \<times> world" where
  "frag_hr w fid d = with_pass w fid ''hr'' d"

subsection \<open>Programs\<close>

text \<open>
  A caller is a sequence of method calls. An exception leaves the objects as they are at
  the raise, and the caller may go on, so a run keeps the store of every call and
  drops its result.
\<close>

datatype op =
    NewFragment
  | Tag nat string "(string \<times> attr_value) list"
  | Enter nat
  | Exit nat
  | AddAttr nat string attr_value
  | AddClass nat string
  | Text nat attr_value
  | Raw nat attr_value
  | Attr nat string attr_value
  | Classes nat string
  | Render nat
  | Clear nat
  | Str nat
  | Embed nat nat
  | Img nat "(string \<times> attr_value) list"
  | Br nat "(string \<times> attr_value) list"
  | Hr nat "(string \<times> attr_value) list"

fun run_op :: "world \<Rightarrow> op \<Rightarrow> world" where
  "run_op w NewFragment = snd (frag_init w)"
| "run_op w (Tag fid name d) = snd (frag_tag w fid name d)"
| "run_op w (Enter cid) = ctx_enter w cid"
| "run_op w (Exit cid) = snd (ctx_exit w cid)"
| "run_op w (AddAttr cid name v) = snd (add_attr w cid name v)"
| "run_op w (AddClass cid class_name) = snd (add_class w cid class_name)"
| "run_op w (Text fid content) = frag_text w fid content"
| "run_op w (Raw fid content) = frag_raw w fid content"
| "run_op w (Attr fid name v) = snd (frag_attr w fid name v)"
| "run_op w (Classes fid class_name) = snd (frag_classes w fid class_name)"
| "run_op w (Render fid) = snd (frag_render w fid)"
| "run_op w (Clear fid) = frag_clear w fid"
| "run_op w (Str fid) = snd (frag_str w fid)"
| "run_op w (Embed fid other) = snd (frag_fragment w fid other)"
| "run_op w (Img fid d) = snd (frag_img w fid d)"
| "run_op w (Br fid d) = snd (frag_br w fid d)"
| "run_op w (Hr fid d) = snd (frag_hr w fid d)"

definition run_ops :: "world \<Rightarrow> op list \<Rightarrow> world" where
  "run_ops w ops = foldl run_op w ops"

subsection \<open>Sample runs\<close>

text \<open>
  \<open>with doc.tag("div"):\<close> reached its body; then \<open>doc.text("x")\<close> was called; then
  the block was left.
\<close>

definition w_div_entered :: world where
  "w_div_entered = run_ops init_world [NewFragment, Tag 0 ''div'' [], Enter 0]"

definition w_div_text :: world where
  "w_div_text = run_op w_div_entered (Text 0 (VStr ''x''))"

definition w_div_closed :: world where
  "w_div_closed = run_op w_div_text (Exit 0)"

text \<open>A \<open>div\<close> context as \<open>tag("div")\<close> creates it.\<close>

definition div_context :: tag_context where
  "div_context = \<lparr>ctx_fragment = 0, tag_name = ''div'', self_closing = False,
                   attrs = [], opened = False\<rparr>"

text \<open>\<open>with doc.tag("div", title=None): pass\<close>\<close>

definition w_div_null :: world where
  "w_div_null = run_ops init_world
     [NewFragment, Tag 0 ''div'' [(''title'', VNone)], Enter 0, Exit 0]"

text \<open>
  \<open>with doc.tag("div"): doc.attr("class_", "a"); doc.attr("class", "b")\<close>
\<close>

definition w_class_twice :: world where
  "w_class_twice = run_ops init_world
     [NewFragment, Tag 0 ''div'' [], Enter 0,
      Attr 0 ''class_'' (VStr ''a''), Attr 0 ''class'' (VStr ''b''), Exit 0]"

text \<open>
  \<open>with doc.div(class_="panel"):\<close> at the start of its body, and after
  \<open>doc.classes("admin"); doc.classes("active"); doc.text("Panel Content")\<close> and the
  end of the block.
\<close>

definition w_div_panel :: world where
  "w_div_panel = run_ops init_world
     [NewFragment, Tag 0 ''div'' [(''class_'', VStr ''panel'')], Enter 0]"

definition w_panel_done :: world where
  "w_panel_done = run_ops w_div_panel
     [Classes 0 ''admin'', Classes 0 ''active'', Text 0 (VStr ''Panel Content''), Exit 0]"

text \<open>\<open>with doc.div(): doc.attr("class", "a"); doc.classes("b")\<close>\<close>

definition w_class_raw :: world where
  "w_class_raw = run_ops init_world
     [NewFragment, Tag 0 ''div'' [], Enter 0,
      Attr 0 ''class'' (VStr ''a''), Classes 0 ''b'', Exit 0]"

text \<open>
  Example 2 of the specification: a \<open>div\<close> with three attributes, at the start of
  its body, and the whole run with the \<open>img\<close> inside.
\<close>

definition w_div_attrs :: world where
  "w_div_attrs = run_ops init_world
     [NewFragment,
      Tag 0 ''div'' [(''class_'', VStr ''container''), (''data_value'', VStr ''123''),
                     (''id'', VStr ''main'')],
      Enter 0]"

definition img_attrs :: "(string \<times> attr_value) list" where
  "img_attrs = [(''src'', VStr ''test.jpg''), (''alt'', VStr ''Test Image'')]"

definition w_div_img :: world where
  "w_div_img = run_ops w_div_attrs [Tag 0 ''img'' img_attrs, Enter 1, Exit 1, Exit 0]"

subsection \<open>Invariants\<close>

text \<open>The two stacks of a fragment have the same length.\<close>

definition aligned :: "world \<Rightarrow> nat \<Rightarrow> bool" where
  "aligned w fid = (length (tag_stack (fragments w fid)) = length (context_stack (fragments w fid)))"

text \<open>
  The \<open>_self_closing\<close> flag of every context says whether its name is a void
  element, and no name on a tag stack is one.
\<close>

definition names_ok :: "world \<Rightarrow> bool" where
  "names_ok w =
     ((\<forall>cid. self_closing (contexts w cid) = is_void (tag_name (contexts w cid)))
      \<and> (\<forall>fid. \<forall>n \<in> set (tag_stack (fragments w fid)). \<not> is_void n))"

section \<open>Attribute-name conversion: what a second application does\<close>

lemma attr_name_sub_head:
  "attr_name_sub (a # t) = a # attr_name_sub t \<or>
   (\<exists>c r. t = CHR ''_'' # c # r \<and> is_word a \<and> is_word c \<and>
      attr_name_sub (a # t) = a # CHR ''-'' # c # attr_name_sub r)"
  by (cases "a # t" rule: attr_name_sub.cases) auto

lemma attr_name_sub_Cons: "\<exists>t'. attr_name_sub (a # t) = a # t'"
  using attr_name_sub_head by blast

lemma hyphen_not_word: "\<not> is_word (CHR ''-'')"
  by (simp add: is_word_def)

lemma spaced_tail: "spaced (x # s) \<Longrightarrow> spaced s"
  by (cases "x # s" rule: spaced.cases) auto

lemma attr_name_sub_stable:
  "spaced s \<Longrightarrow> attr_name_sub (attr_name_sub s) = attr_name_sub s"
proof (induction s rule: attr_name_sub.induct)
  case (1 a b c rest)
  show ?case
  proof (cases "is_word a \<and> b = CHR ''_'' \<and> is_word c")
    case True
    from "1.prems" have "spaced rest"
      by (meson spaced_tail)
    with "1.IH"(1) True have ih: "attr_name_sub (attr_name_sub rest) = attr_name_sub rest"
      by simp
    have nohd: "\<And>r. rest \<noteq> CHR ''_'' # r"
      using "1.prems" True by auto
    have keep: "attr_name_sub (c # attr_name_sub rest) = c # attr_name_sub rest"
    proof (cases rest)
      case Nil
      then show ?thesis by simp
    next
      case (Cons x xs)
      with nohd [of xs] have "x \<noteq> CHR ''_''" by auto
      moreover obtain t' where "attr_name_sub rest = x # t'"
        using Cons attr_name_sub_Cons by blast
      ultimately show ?thesis
        using ih attr_name_sub_head [of c "attr_name_sub rest"] by auto
    qed
    have "attr_name_sub (CHR ''-'' # c # attr_name_sub rest) = CHR ''-'' # c # attr_name_sub rest"
      using keep attr_name_sub_head [of "CHR ''-''" "c # attr_name_sub rest"] hyphen_not_word
      by auto
    then have "attr_name_sub (a # CHR ''-'' # c # attr_name_sub rest)
               = a # CHR ''-'' # c # attr_name_sub rest"
      using attr_name_sub_head [of a "CHR ''-'' # c # attr_name_sub rest"] by auto
    with True show ?thesis by simp
  next
    case False
    from "1.prems" have "spaced (b # c # rest)" by simp
    with "1.IH"(2) False
    have ih: "attr_name_sub (attr_name_sub (b # c # rest)) = attr_name_sub (b # c # rest)"
      by blast
    have "attr_name_sub (a # attr_name_sub (b # c # rest)) = a # attr_name_sub (b # c # rest)"
    proof -
      consider (plain) "attr_name_sub (b # c # rest) = b # attr_name_sub (c # rest)"
        | (hit) "\<exists>t'. attr_name_sub (b # c # rest) = b # CHR ''-'' # t'"
        using attr_name_sub_head [of b "c # rest"] by auto
      then show ?thesis
      proof cases
        case plain
        obtain t' where "attr_name_sub (c # rest) = c # t'"
          using attr_name_sub_Cons by blast
        with plain False ih show ?thesis
          using attr_name_sub_head [of a "attr_name_sub (b # c # rest)"] by auto
      next
        case hit
        then obtain t' where "attr_name_sub (b # c # rest) = b # CHR ''-'' # t'" by blast
        with ih show ?thesis
          using attr_name_sub_head [of a "attr_name_sub (b # c # rest)"] hyphen_not_word
          by auto
      qed
    qed
    then show ?thesis by (simp only: attr_name_sub.simps False if_False)
  qed
qed auto

lemma attr_name_sub_Nil: "attr_name_sub s = [] \<longleftrightarrow> s = []"
  by (cases s rule: attr_name_sub.cases) auto

lemma attr_name_sub_last: "s \<noteq> [] \<Longrightarrow> last (attr_name_sub s) = last s"
  by (induction s rule: attr_name_sub.induct) (auto simp: attr_name_sub_Nil)

lemma attr_name_sub_no_hyphen:
  "CHR ''-'' \<notin> set (attr_name_sub s) \<Longrightarrow> attr_name_sub s = s"
  by (induction s rule: attr_name_sub.induct) (auto split: if_splits)

lemma attr_name_sub_classes: "attr_name_sub s = ''classes'' \<Longrightarrow> s = ''classes''"
  using attr_name_sub_no_hyphen [of s] by auto

text \<open>
  C3, as the source has it. \<open>_convert_attr_name\<close> gives the same result when applied
  to its own result for the alias \<open>class_\<close> and for every name that does not end with
  an underscore and has no two underscores exactly two positions apart. (A name that
  ends with an underscore only loses that character, so the second application can
  still change it.)
\<close>

theorem convert_attr_name_twice:
  assumes "name = ''class_'' \<or> \<not> endswith_underscore name" and "spaced name"
  shows "convert_attr_name (convert_attr_name name) = convert_attr_name name"
proof (cases "name = ''classes'' \<or> name = ''class_''")
  case True
  then show ?thesis by (auto simp: convert_attr_name_def endswith_underscore_def)
next
  case False
  with assms(1) have ne: "\<not> endswith_underscore name" by simp
  have c: "convert_attr_name name = attr_name_sub name"
    using False ne by (simp add: convert_attr_name_def)
  have e: "\<not> endswith_underscore (attr_name_sub name)"
    using ne attr_name_sub_last [of name]
    by (auto simp: endswith_underscore_def attr_name_sub_Nil)
  have "attr_name_sub name \<noteq> ''classes''"
    using False attr_name_sub_classes by blast
  moreover have "attr_name_sub name \<noteq> ''class_''"
    using e by (auto simp: endswith_underscore_def)
  ultimately show ?thesis
    using c e attr_name_sub_stable [OF assms(2)] by (simp add: convert_attr_name_def)
qed

theorem convert_attr_name_twice_witness:
  "\<not> endswith_underscore ''data_value''
   \<and> spaced ''data_value''
   \<and> convert_attr_name ''data_value'' = ''data-value''
   \<and> convert_attr_name (convert_attr_name ''data_value'') = convert_attr_name ''data_value''"
proof -
  have h1: "''data_value'' = ''class_'' \<or> \<not> endswith_underscore ''data_value''"
    by (simp add: endswith_underscore_def)
  have h2: "spaced ''data_value''" by simp
  have h3: "convert_attr_name ''data_value'' = ''data-value''"
    by (simp add: convert_attr_name_def endswith_underscore_def is_word_def)
  from h1 h2 h3 convert_attr_name_twice [OF h1 h2] show ?thesis by blast
qed

text \<open>
  C3 as the specification states it fails: \<open>a_b_\<close> ends with an underscore, so the
  first application only strips it; the second one then rewrites the inner underscore.
\<close>

theorem convert_attr_name_not_idempotent:
  "convert_attr_name (convert_attr_name ''a_b_'') \<noteq> convert_attr_name ''a_b_''"
  by (simp add: convert_attr_name_def endswith_underscore_def is_word_def)

section \<open>Facts about the sample runs\<close>

lemma w_div_text_opened: "opened (contexts w_div_text 0)"
  unfolding w_div_text_def w_div_entered_def by code_simp

lemma w_div_text_stack: "context_stack (fragments w_div_text 0) = [0]"
  unfolding w_div_text_def w_div_entered_def by code_simp

lemma w_div_entered_pending: "\<not> opened (contexts w_div_entered 0)"
  unfolding w_div_text_def w_div_entered_def by code_simp

lemma w_div_text_tag_stack: "tag_stack (fragments w_div_text 0) = [''div'']"
  unfolding w_div_text_def w_div_entered_def by code_simp

lemma w_div_closed_tag_stack: "tag_stack (fragments w_div_closed 0) = []"
  unfolding w_div_closed_def w_div_text_def w_div_entered_def by code_simp

lemma w_div_closed_parts: "parts (fragments w_div_closed 0) = [''<div>'', ''x'', ''</div>'']"
  unfolding w_div_closed_def w_div_text_def w_div_entered_def by code_simp

section \<open>Errors\<close>

text \<open>
  C6. On a context whose opening tag has been written, \<open>add_attr\<close> and \<open>add_class\<close>
  raise \<open>TagAlreadyOpenedError\<close> and change nothing in the store (the attribute
  dictionary included); the same holds for \<open>Fragment.attr\<close> and
  \<open>Fragment.classes\<close>, which pass the call to the innermost context. On a context
  that is not opened yet, neither method raises.
\<close>

theorem add_attr_add_class_opened:
  "(opened (contexts w cid) \<longrightarrow>
      add_attr w cid name v = (Inl TagAlreadyOpenedError, w)
      \<and> add_class w cid class_name = (Inl TagAlreadyOpenedError, w))
   \<and> (\<not> opened (contexts w cid) \<longrightarrow>
      fst (add_attr w cid name v) = Inr () \<and> fst (add_class w cid class_name) = Inr ())
   \<and> (context_stack (fragments w fid) \<noteq> []
        \<and> opened (contexts w (last (context_stack (fragments w fid)))) \<longrightarrow>
      frag_attr w fid name v = (Inl TagAlreadyOpenedError, w)
      \<and> frag_classes w fid class_name = (Inl TagAlreadyOpenedError, w))"
  by (simp add: add_attr_def add_class_def frag_attr_def frag_classes_def Let_def)

theorem add_attr_add_class_opened_witness:
  "opened (contexts w_div_text 0)
   \<and> add_attr w_div_text 0 ''id'' (VStr ''main'') = (Inl TagAlreadyOpenedError, w_div_text)
   \<and> add_class w_div_text 0 ''active'' = (Inl TagAlreadyOpenedError, w_div_text)
   \<and> frag_attr w_div_text 0 ''id'' (VStr ''main'') = (Inl TagAlreadyOpenedError, w_div_text)
   \<and> frag_classes w_div_text 0 ''active'' = (Inl TagAlreadyOpenedError, w_div_text)
   \<and> \<not> opened (contexts w_div_entered 0)
   \<and> fst (add_attr w_div_entered 0 ''id'' (VStr ''main'')) = Inr ()
   \<and> fst (add_class w_div_entered 0 ''active'') = Inr ()"
  using add_attr_add_class_opened [of w_div_text 0 "''id''" "VStr ''main''" "''active''" 0]
    add_attr_add_class_opened [of w_div_entered 0 "''id''" "VStr ''main''" "''active''" 0]
    w_div_text_opened w_div_text_stack w_div_entered_pending
  by simp

text \<open>
  C5. \<open>render\<close> raises \<open>UnclosedTagsError\<close> exactly when the tag stack is not empty;
  it never changes the store; with an empty tag stack it returns the concatenation of
  the parts.
\<close>

theorem frag_render_unclosed:
  "(fst (frag_render w fid) = Inl UnclosedTagsError \<longleftrightarrow> tag_stack (fragments w fid) \<noteq> [])
   \<and> snd (frag_render w fid) = w
   \<and> (tag_stack (fragments w fid) = [] \<longrightarrow>
        fst (frag_render w fid) = Inr (concat (parts (fragments w fid))))"
  by (simp add: frag_render_def)

theorem frag_render_unclosed_witness:
  "tag_stack (fragments w_div_text 0) \<noteq> []
   \<and> frag_render w_div_text 0 = (Inl UnclosedTagsError, w_div_text)
   \<and> tag_stack (fragments w_div_closed 0) = []
   \<and> frag_render w_div_closed 0 = (Inr ''<div>x</div>'', w_div_closed)"
  using frag_render_unclosed [of w_div_text 0] frag_render_unclosed [of w_div_closed 0]
    w_div_text_tag_stack w_div_closed_tag_stack w_div_closed_parts
  by (simp add: prod_eq_iff)

text \<open>
  C10. \<open>__str__\<close> is \<open>render\<close>: the same text with an empty tag stack, the same
  \<open>UnclosedTagsError\<close> otherwise.
\<close>

theorem frag_str_is_render:
  "frag_str w fid = frag_render w fid
   \<and> (tag_stack (fragments w fid) = [] \<longrightarrow>
        frag_str w fid = (Inr (concat (parts (fragments w fid))), w))
   \<and> (tag_stack (fragments w fid) \<noteq> [] \<longrightarrow> frag_str w fid = (Inl UnclosedTagsError, w))"
  by (simp add: frag_str_def frag_render_def)

theorem frag_str_is_render_witness:
  "tag_stack (fragments w_div_text 0) \<noteq> []
   \<and> frag_str w_div_text 0 = (Inl UnclosedTagsError, w_div_text)
   \<and> tag_stack (fragments w_div_closed 0) = []
   \<and> frag_str w_div_closed 0 = (Inr ''<div>x</div>'', w_div_closed)
   \<and> frag_str w_div_closed 0 = frag_render w_div_closed 0"
  using frag_str_is_render [of w_div_text 0] frag_str_is_render [of w_div_closed 0]
    w_div_text_tag_stack w_div_closed_tag_stack w_div_closed_parts
  by auto

section \<open>More facts about the sample runs\<close>

lemma w_div_entered_ctx:
  "ctx_fragment (contexts w_div_entered 0) = 0"
  "parts (fragments w_div_entered 0) = []"
  "opening_tag (contexts w_div_entered 0) = ''<div>''"
  unfolding w_div_entered_def by code_simp+

lemma w_div_entered_attrs: "attrs (contexts w_div_entered 0) = []"
  unfolding w_div_entered_def by code_simp

lemma w_div_entered_stack: "context_stack (fragments w_div_entered 0) = [0]"
  unfolding w_div_entered_def by code_simp

section \<open>Dictionaries\<close>

lemma dict_get_set: "dict_get (dict_set d k v) k = v"
  by (induction d) auto

lemma dict_get_set_other: "k' \<noteq> k \<Longrightarrow> dict_get (dict_set d k v) k' = dict_get d k'"
  by (induction d) auto

lemma dict_set_twice: "dict_set (dict_set d k v) k v' = dict_set d k v'"
  by (induction d) auto

lemma dict_set_keys: "fst ` set (dict_set d k v) = insert k (fst ` set d)"
proof (induction d)
  case Nil
  show ?case by simp
next
  case (Cons p d)
  obtain k' v' where p: "p = (k', v')" by (cases p)
  show ?case
  proof (cases "k' = k")
    case True
    with p show ?thesis by simp
  next
    case False
    with p Cons.IH show ?thesis by (simp add: insert_commute)
  qed
qed

lemma dict_set_distinct: "distinct (map fst d) \<Longrightarrow> distinct (map fst (dict_set d k v))"
proof (induction d)
  case Nil
  show ?case by simp
next
  case (Cons p d)
  obtain k' v' where p: "p = (k', v')" by (cases p)
  from Cons.prems p have nk: "k' \<notin> fst ` set d" and dd: "distinct (map fst d)" by auto
  show ?case
  proof (cases "k' = k")
    case True
    with p Cons.prems show ?thesis by simp
  next
    case False
    with p nk Cons.IH [OF dd] show ?thesis by (simp add: dict_set_keys)
  qed
qed

section \<open>Attributes of the opening tag\<close>

text \<open>
  C2, as the source has it. An attribute whose value is \<open>None\<close> gives no
  \<open>name="value"\<close> piece: the opening tag is the one the dictionary without that entry
  gives, as long as another entry is left. The separator space is written whenever the
  dictionary is not empty, so a tag all of whose attributes are \<open>None\<close> is written
  \<open><name >\<close>; only the empty dictionary gives \<open><name>\<close>. \<open>_ensure_opened\<close> on a
  context that is not opened appends exactly this opening tag.
\<close>

theorem null_attribute_omitted:
  "(pre @ post \<noteq> [] \<longrightarrow>
      opening_tag (c\<lparr>attrs := pre @ (k, VNone) # post\<rparr>) = opening_tag (c\<lparr>attrs := pre @ post\<rparr>))
   \<and> (d \<noteq> [] \<and> (\<forall>kv \<in> set d. snd kv = VNone) \<and> \<not> self_closing c \<longrightarrow>
      opening_tag (c\<lparr>attrs := d\<rparr>) = ''<'' @ tag_name c @ '' >'')
   \<and> (\<not> self_closing c \<longrightarrow> opening_tag (c\<lparr>attrs := []\<rparr>) = ''<'' @ tag_name c @ ''>'')
   \<and> (\<not> opened (contexts w cid) \<longrightarrow>
      parts (fragments (ensure_opened w cid) (ctx_fragment (contexts w cid)))
      = parts (fragments w (ctx_fragment (contexts w cid))) @ [opening_tag (contexts w cid)])"
proof -
  have "filter (\<lambda>kv. snd kv \<noteq> VNone) d = []" if "\<forall>kv \<in> set d. snd kv = VNone" for d :: "(string \<times> attr_value) list"
    using that by (induction d) auto
  then show ?thesis
    by (auto simp: opening_tag_def attr_str_def ensure_opened_def append_part_def Let_def)
qed

theorem null_attribute_omitted_witness:
  "[(''id'', VStr ''main'')] @ [] \<noteq> []
   \<and> opening_tag (div_context\<lparr>attrs := [(''id'', VStr ''main'')] @ (''title'', VNone) # []\<rparr>)
       = opening_tag (div_context\<lparr>attrs := [(''id'', VStr ''main'')] @ []\<rparr>)
   \<and> snd (''title'', VNone) = VNone \<and> \<not> self_closing div_context
   \<and> opening_tag (div_context\<lparr>attrs := [(''title'', VNone)]\<rparr>) = ''<div >''
   \<and> opening_tag (div_context\<lparr>attrs := []\<rparr>) = ''<div>''
   \<and> \<not> opened (contexts w_div_entered 0)
   \<and> parts (fragments (ensure_opened w_div_entered 0) 0) = [''<div>'']"
  using null_attribute_omitted [where pre = "[(''id'', VStr ''main'')]" and post = "[]"
      and c = div_context and k = "''title''" and d = "[(''title'', VNone)]"
      and w = w_div_entered and cid = 0]
    w_div_entered_pending w_div_entered_ctx
  by (simp add: div_context_def)

text \<open>
  C2 as the specification states it fails: a \<open>div\<close> whose only attribute is \<open>None\<close>
  is written \<open><div >\<close>, with the space.
\<close>

theorem null_only_attribute_leaves_space:
  "parts (fragments w_div_null 0) = [''<div >'', ''</div>'']
   \<and> parts (fragments w_div_null 0) \<noteq> [''<div>'', ''</div>'']"
  unfolding w_div_null_def by code_simp

text \<open>
  C1, as the source has it. \<open>add_attr\<close> on a context that is not opened stores the
  value under the name as it is given (\<open>Fragment.attr\<close> passes the call to the
  innermost context); a second store under the same given name replaces the first, and
  the keys stay distinct. The names are converted only when the opening tag is written,
  one \<open>name="value"\<close> piece for every entry whose value is not \<open>None\<close>.
\<close>

theorem add_attr_stores_raw_name:
  "(\<not> opened (contexts w cid) \<longrightarrow>
      add_attr w cid name v
      = (Inr (), w\<lparr>contexts := (contexts w)
           (cid := (contexts w cid)\<lparr>attrs := dict_set (attrs (contexts w cid)) name v\<rparr>)\<rparr>))
   \<and> (context_stack (fragments w fid) \<noteq> [] \<longrightarrow>
      frag_attr w fid name v = add_attr w (last (context_stack (fragments w fid))) name v)
   \<and> dict_get (dict_set d name v) name = v
   \<and> dict_set (dict_set d name v) name v' = dict_set d name v'
   \<and> (distinct (map fst d) \<longrightarrow> distinct (map fst (dict_set d name v)))
   \<and> (d \<noteq> [] \<longrightarrow>
      attr_str d = '' '' @ join '' '' (map render_attr (filter (\<lambda>kv. snd kv \<noteq> VNone) d)))"
  by (simp add: add_attr_def frag_attr_def Let_def dict_get_set dict_set_twice dict_set_distinct attr_str_def)

theorem add_attr_stores_raw_name_witness:
  "\<not> opened (contexts w_div_entered 0)
   \<and> attrs (contexts (snd (add_attr w_div_entered 0 ''data_value'' (VStr ''1''))) 0)
       = [(''data_value'', VStr ''1'')]
   \<and> context_stack (fragments w_div_entered 0) \<noteq> []
   \<and> frag_attr w_div_entered 0 ''data_value'' (VStr ''1'')
       = add_attr w_div_entered 0 ''data_value'' (VStr ''1'')
   \<and> distinct (map fst [(''data_value'', VStr ''1'')])
   \<and> dict_set (dict_set [(''data_value'', VStr ''1'')] ''data_value'' (VStr ''2'')) ''data_value'' (VStr ''3'')
       = [(''data_value'', VStr ''3'')]
   \<and> distinct (map fst (dict_set [(''data_value'', VStr ''1'')] ''data_value'' (VStr ''2'')))
   \<and> attr_str [(''data_value'', VStr ''1'')] = '' data-value=\"1\"''"
  using add_attr_stores_raw_name [where w = w_div_entered and cid = 0 and fid = 0
      and name = "''data_value''"
      and v = "VStr ''2''" and v' = "VStr ''3''" and d = "[(''data_value'', VStr ''1'')]"]
    add_attr_stores_raw_name [where w = w_div_entered and cid = 0 and fid = 0
      and name = "''data_value''"
      and v = "VStr ''1''" and v' = "VStr ''3''" and d = "[(''data_value'', VStr ''1'')]"]
    w_div_entered_pending w_div_entered_attrs w_div_entered_stack
  by (simp add: render_attr_def convert_attr_name_def endswith_underscore_def is_word_def
      escape_attr_value_def html_escape_def replace_char_def)

text \<open>
  C1 as the specification states it fails: \<open>class_\<close> and \<open>class\<close> are two keys of
  the dictionary, and the opening tag has two \<open>class\<close> attributes.
\<close>

theorem class_alias_and_class_both_stored:
  \<open>attrs (contexts w_class_twice 0) = [(''class_'', VStr ''a''), (''class'', VStr ''b'')]
   \<and> parts (fragments w_class_twice 0) = [''<div class="a" class="b">'', ''</div>'']\<close>
  unfolding w_class_twice_def by code_simp

text \<open>
  Example 3 of the specification: a \<open>div\<close> opened with \<open>class_="panel"\<close>, the
  classes \<open>admin\<close> and \<open>active\<close> appended, then the text \<open>Panel Content\<close>.
\<close>

lemma panel_example_renders:
  \<open>attrs (contexts w_div_panel 0) = [(''class_'', VStr ''panel'')]
   \<and> fst (frag_render w_panel_done 0)
       = Inr ''<div class="panel admin active">Panel Content</div>''\<close>
  unfolding w_panel_done_def w_div_panel_def by code_simp

text \<open>
  C7. For a context that is not opened and has a class value \<open>v\<close>, stored under the
  key \<open>class\<close> or under \<open>class_\<close>, appending \<open>c\<close> is to rewrite the class value
  to \<open>v\<close>, a space and \<open>c\<close>. \<open>add_class\<close> reads both keys but always writes
  \<open>class_\<close>. In the run \<open>attr("class", "a"); classes("b")\<close> the entry \<open>class\<close>
  keeps the value \<open>a\<close>, a second entry \<open>class_\<close> gets \<open>a b\<close>, and the opening tag
  has two \<open>class\<close> attributes, the old value first, instead of \<open>class="a b"\<close>.
\<close>

theorem add_class_keeps_raw_class:
  \<open>attrs (contexts w_class_raw 0) = [(''class'', VStr ''a''), (''class_'', VStr ''a b'')]
   \<and> parts (fragments w_class_raw 0) = [''<div class="a" class="a b">'', ''</div>'']
   \<and> parts (fragments w_class_raw 0) \<noteq> [''<div class="a b">'', ''</div>'']\<close>
  unfolding w_class_raw_def by code_simp

section \<open>The two stacks\<close>

lemma append_part_stacks:
  "tag_stack (fragments (append_part w f s) fid) = tag_stack (fragments w fid)"
  "context_stack (fragments (append_part w f s) fid) = context_stack (fragments w fid)"
  by (simp_all add: append_part_def)

lemma ensure_opened_stacks:
  "tag_stack (fragments (ensure_opened w cid) fid) = tag_stack (fragments w fid)"
  "context_stack (fragments (ensure_opened w cid) fid) = context_stack (fragments w fid)"
  by (simp_all add: ensure_opened_def Let_def append_part_stacks)

lemma open_current_stacks:
  "tag_stack (fragments (open_current w f) fid) = tag_stack (fragments w fid)"
  "context_stack (fragments (open_current w f) fid) = context_stack (fragments w fid)"
  by (simp_all add: open_current_def ensure_opened_stacks)

lemma frag_tag_stacks:
  "tag_stack (fragments (snd (frag_tag w f name d)) fid) = tag_stack (fragments w fid)"
  "context_stack (fragments (snd (frag_tag w f name d)) fid) = context_stack (fragments w fid)"
  by (simp_all add: frag_tag_def Let_def open_current_stacks)

lemma aligned_cong:
  "tag_stack (fragments w' fid) = tag_stack (fragments w fid) \<Longrightarrow>
   context_stack (fragments w' fid) = context_stack (fragments w fid) \<Longrightarrow>
   aligned w' fid = aligned w fid"
  by (simp add: aligned_def)

lemma aligned_ensure_opened: "aligned (ensure_opened w cid) fid = aligned w fid"
  by (rule aligned_cong) (rule ensure_opened_stacks)+

lemma aligned_open_current: "aligned (open_current w f) fid = aligned w fid"
  by (rule aligned_cong) (rule open_current_stacks)+

lemma aligned_append_part: "aligned (append_part w f s) fid = aligned w fid"
  by (rule aligned_cong) (rule append_part_stacks)+

lemma aligned_frag_tag: "aligned (snd (frag_tag w f name d)) fid = aligned w fid"
  by (rule aligned_cong) (rule frag_tag_stacks)+

lemma aligned_ctx_enter: "aligned w fid \<Longrightarrow> aligned (ctx_enter w cid) fid"
  by (auto simp: ctx_enter_def Let_def aligned_def ensure_opened_stacks)

lemma aligned_ctx_exit: "aligned w fid \<Longrightarrow> aligned (snd (ctx_exit w cid)) fid"
  by (auto simp: ctx_exit_def Let_def aligned_def ensure_opened_stacks)

lemma aligned_add_attr: "aligned (snd (add_attr w cid name v)) fid = aligned w fid"
  by (simp add: add_attr_def Let_def aligned_def)

lemma aligned_add_class: "aligned (snd (add_class w cid cn)) fid = aligned w fid"
  by (simp add: add_class_def Let_def aligned_def)

lemma aligned_frag_text: "aligned (frag_text w f content) fid = aligned w fid"
  by (simp add: frag_text_def aligned_append_part aligned_open_current)

lemma aligned_frag_raw: "aligned (frag_raw w f content) fid = aligned w fid"
  by (simp add: frag_raw_def aligned_append_part aligned_open_current)

lemma aligned_frag_attr: "aligned (snd (frag_attr w f name v)) fid = aligned w fid"
  by (simp add: frag_attr_def aligned_add_attr)

lemma aligned_frag_classes: "aligned (snd (frag_classes w f cn)) fid = aligned w fid"
  by (simp add: frag_classes_def aligned_add_class)

lemma aligned_frag_render: "aligned (snd (frag_render w f)) fid = aligned w fid"
  by (simp add: frag_render_def)

lemma aligned_frag_clear: "aligned w fid \<Longrightarrow> aligned (frag_clear w f) fid"
  by (simp add: frag_clear_def aligned_def)

lemma aligned_frag_init: "aligned w fid \<Longrightarrow> aligned (snd (frag_init w)) fid"
  by (simp add: frag_init_def aligned_def)

lemma aligned_frag_fragment: "aligned (snd (frag_fragment w f other)) fid = aligned w fid"
  by (simp add: frag_fragment_def frag_render_def Let_def aligned_append_part aligned_open_current)

lemma aligned_with_pass: "aligned w fid \<Longrightarrow> aligned (snd (with_pass w f name d)) fid"
  by (simp add: with_pass_def split: prod.split)
     (metis aligned_ctx_exit aligned_ctx_enter aligned_frag_tag snd_conv)

lemma aligned_run_op: "aligned w fid \<Longrightarrow> aligned (run_op w op) fid"
  by (cases op)
     (simp_all add: aligned_frag_init aligned_frag_tag aligned_ctx_enter aligned_ctx_exit
        aligned_add_attr aligned_add_class aligned_frag_text aligned_frag_raw aligned_frag_attr
        aligned_frag_classes aligned_frag_render aligned_frag_clear frag_str_def
        aligned_frag_fragment frag_img_def frag_br_def frag_hr_def aligned_with_pass)

lemma aligned_init: "aligned init_world fid"
  by (simp add: init_world_def aligned_def)

lemma aligned_foldl: "aligned w fid \<Longrightarrow> aligned (foldl run_op w ops) fid"
  by (induction ops arbitrary: w) (simp_all add: aligned_run_op)

text \<open>
  C9. The tag stack and the context stack of every fragment have the same length in the
  initial store, every method call keeps it so (whether it returns or raises), and so
  it holds after every sequence of calls.
\<close>

theorem stacks_stay_aligned:
  "aligned init_world fid
   \<and> (aligned w fid \<longrightarrow> aligned (run_op w op) fid)
   \<and> aligned (run_ops init_world ops) fid"
  by (simp add: aligned_init aligned_run_op run_ops_def aligned_foldl)

theorem stacks_stay_aligned_witness:
  "aligned w_div_entered 0
   \<and> tag_stack (fragments w_div_entered 0) = [''div'']
   \<and> context_stack (fragments w_div_entered 0) = [0]
   \<and> aligned (run_op w_div_entered (Exit 0)) 0
   \<and> aligned (run_ops init_world [NewFragment, Tag 0 ''div'' [], Enter 0, Clear 0, Exit 0]) 0"
proof -
  have s: "tag_stack (fragments w_div_entered 0) = [''div'']"
    "context_stack (fragments w_div_entered 0) = [0]"
    unfolding w_div_entered_def by code_simp+
  then have a: "aligned w_div_entered 0" by (simp add: aligned_def)
  from a s stacks_stay_aligned [of 0 w_div_entered "Exit 0"
      "[NewFragment, Tag 0 ''div'' [], Enter 0, Clear 0, Exit 0]"]
  show ?thesis by simp
qed

section \<open>Void elements\<close>

lemma append_part_contexts: "contexts (append_part w f s) = contexts w"
  by (simp add: append_part_def)

lemma ensure_opened_names:
  "self_closing (contexts (ensure_opened w cid) c) = self_closing (contexts w c)"
  "tag_name (contexts (ensure_opened w cid) c) = tag_name (contexts w c)"
  by (simp_all add: ensure_opened_def Let_def append_part_contexts)

lemma open_current_names:
  "self_closing (contexts (open_current w f) c) = self_closing (contexts w c)"
  "tag_name (contexts (open_current w f) c) = tag_name (contexts w c)"
  by (simp_all add: open_current_def ensure_opened_names)

lemma names_ok_cong:
  "(\<And>c. self_closing (contexts w' c) = self_closing (contexts w c)) \<Longrightarrow>
   (\<And>c. tag_name (contexts w' c) = tag_name (contexts w c)) \<Longrightarrow>
   (\<And>f. tag_stack (fragments w' f) = tag_stack (fragments w f)) \<Longrightarrow>
   names_ok w' = names_ok w"
  by (simp add: names_ok_def)

lemma names_ok_ensure_opened: "names_ok (ensure_opened w cid) = names_ok w"
  by (rule names_ok_cong) (simp_all add: ensure_opened_names ensure_opened_stacks)

lemma names_ok_open_current: "names_ok (open_current w f) = names_ok w"
  by (rule names_ok_cong) (simp_all add: open_current_names open_current_stacks)

lemma names_ok_append_part: "names_ok (append_part w f s) = names_ok w"
  by (rule names_ok_cong) (simp_all add: append_part_contexts append_part_stacks)

lemma names_ok_frag_tag: "names_ok w \<Longrightarrow> names_ok (snd (frag_tag w f name d))"
proof -
  assume "names_ok w"
  then have "names_ok (open_current w f)" by (simp add: names_ok_open_current)
  then show ?thesis by (simp add: frag_tag_def Let_def names_ok_def)
qed

lemma names_ok_ctx_enter: "names_ok w \<Longrightarrow> names_ok (ctx_enter w cid)"
proof (cases "self_closing (contexts w cid)")
  case True
  assume "names_ok w"
  with True show ?thesis by (simp add: ctx_enter_def Let_def names_ok_ensure_opened)
next
  case False
  assume "names_ok w"
  with False show ?thesis by (auto simp: ctx_enter_def Let_def names_ok_def)
qed

lemma names_ok_ctx_exit: "names_ok w \<Longrightarrow> names_ok (snd (ctx_exit w cid))"
proof -
  assume "names_ok w"
  then have "names_ok (ensure_opened w cid)" by (simp add: names_ok_ensure_opened)
  then show ?thesis using \<open>names_ok w\<close>
    by (auto simp: ctx_exit_def Let_def names_ok_def dest: in_set_butlastD)
qed

lemma names_ok_add_attr: "names_ok (snd (add_attr w cid name v)) = names_ok w"
  by (auto simp: add_attr_def Let_def names_ok_def)

lemma names_ok_add_class: "names_ok (snd (add_class w cid cn)) = names_ok w"
  by (auto simp: add_class_def Let_def names_ok_def)

lemma names_ok_frag_render: "names_ok (snd (frag_render w f)) = names_ok w"
  by (simp add: frag_render_def)

lemma names_ok_frag_fragment: "names_ok (snd (frag_fragment w f other)) = names_ok w"
  by (simp add: frag_fragment_def frag_render_def Let_def names_ok_append_part names_ok_open_current)

lemma names_ok_with_pass: "names_ok w \<Longrightarrow> names_ok (snd (with_pass w f name d))"
  by (simp add: with_pass_def split: prod.split)
     (metis names_ok_ctx_exit names_ok_ctx_enter names_ok_frag_tag snd_conv)

lemma names_ok_run_op: "names_ok w \<Longrightarrow> names_ok (run_op w op)"
proof (cases op)
  case NewFragment
  assume "names_ok w"
  with NewFragment show ?thesis by (simp add: frag_init_def names_ok_def)
next
  case (Clear f)
  assume "names_ok w"
  with Clear show ?thesis by (simp add: frag_clear_def names_ok_def)
qed (simp_all add: names_ok_frag_tag names_ok_ctx_enter names_ok_ctx_exit names_ok_add_attr
      names_ok_add_class frag_text_def frag_raw_def names_ok_append_part names_ok_open_current
      frag_attr_def frag_classes_def names_ok_frag_render frag_str_def names_ok_frag_fragment
      frag_img_def frag_br_def frag_hr_def names_ok_with_pass)

lemma names_ok_init: "names_ok init_world"
  by (simp add: names_ok_def init_world_def is_void_def lower_def void_elements_def)

lemma names_ok_foldl: "names_ok w \<Longrightarrow> names_ok (foldl run_op w ops)"
  by (induction ops arbitrary: w) (simp_all add: names_ok_run_op)

lemma ctx_exit_closing:
  "names_ok w \<Longrightarrow>
   (self_closing (contexts w cid) \<longrightarrow> ctx_exit w cid = (Inr (), w))
   \<and> (\<not> self_closing (contexts w cid) \<longrightarrow>
        parts (fragments (snd (ctx_exit w cid)) (ctx_fragment (contexts w cid)))
          = parts (fragments (ensure_opened w cid) (ctx_fragment (contexts w cid)))
        \<or> (\<exists>n. \<not> is_void n
            \<and> parts (fragments (snd (ctx_exit w cid)) (ctx_fragment (contexts w cid)))
              = parts (fragments (ensure_opened w cid) (ctx_fragment (contexts w cid)))
                @ [''</'' @ n @ ''>'']))"
proof -
  assume ok: "names_ok w"
  have "\<not> is_void (last (tag_stack (fragments (ensure_opened w cid) f)))"
    if ne: "tag_stack (fragments (ensure_opened w cid) f) \<noteq> []" for f
  proof -
    from ne have "last (tag_stack (fragments w f)) \<in> set (tag_stack (fragments w f))"
      by (simp add: ensure_opened_stacks)
    moreover from ok have "\<forall>n \<in> set (tag_stack (fragments w f)). \<not> is_void n"
      by (simp add: names_ok_def)
    ultimately show ?thesis by (simp add: ensure_opened_stacks)
  qed
  then show ?thesis
    by (auto simp: ctx_exit_def Let_def)
qed

lemma void_enter_exit:
  assumes "is_void name" and "frag_tag w fid name d = (cid, w1)"
  shows "ctx_enter w1 cid
         = append_part (w1\<lparr>contexts := (contexts w1)(cid := (contexts w1 cid)\<lparr>opened := True\<rparr>)\<rparr>)
             fid (''<'' @ name @ attr_str d @ '' />'')"
    and "tag_stack (fragments (ctx_enter w1 cid) f) = tag_stack (fragments w f)"
    and "context_stack (fragments (ctx_enter w1 cid) f) = context_stack (fragments w f)"
    and "ctx_exit (ctx_enter w1 cid) cid = (Inr (), ctx_enter w1 cid)"
proof -
  from assms(2) have w1: "w1 = snd (frag_tag w fid name d)" and cid: "cid = next_context (open_current w fid)"
    by (auto simp: frag_tag_def Let_def)
  have c: "contexts w1 cid = \<lparr>ctx_fragment = fid, tag_name = name, self_closing = True, attrs = d, opened = False\<rparr>"
    using assms by (auto simp: frag_tag_def Let_def)
  show "ctx_enter w1 cid
         = append_part (w1\<lparr>contexts := (contexts w1)(cid := (contexts w1 cid)\<lparr>opened := True\<rparr>)\<rparr>)
             fid (''<'' @ name @ attr_str d @ '' />'')"
    using c by (simp add: ctx_enter_def ensure_opened_def Let_def opening_tag_def)
  have e: "ctx_enter w1 cid = ensure_opened w1 cid"
    using c by (simp add: ctx_enter_def Let_def)
  have "tag_stack (fragments (ensure_opened w1 cid) f) = tag_stack (fragments w f)"
    unfolding w1 by (simp add: ensure_opened_stacks frag_tag_stacks)
  then show "tag_stack (fragments (ctx_enter w1 cid) f) = tag_stack (fragments w f)"
    unfolding e .
  have "context_stack (fragments (ensure_opened w1 cid) f) = context_stack (fragments w f)"
    unfolding w1 by (simp add: ensure_opened_stacks frag_tag_stacks)
  then show "context_stack (fragments (ctx_enter w1 cid) f) = context_stack (fragments w f)"
    unfolding e .
  have "self_closing (contexts (ctx_enter w1 cid) cid)"
    using c by (simp add: e ensure_opened_names)
  then show "ctx_exit (ctx_enter w1 cid) cid = (Inr (), ctx_enter w1 cid)"
    by (simp add: ctx_exit_def Let_def)
qed

lemma next_context_open_current: "next_context (open_current w fid) = next_context w"
  by (simp add: open_current_def ensure_opened_def append_part_def Let_def)

lemma names_ok_reach: "names_ok (run_ops init_world ops)"
  by (simp add: run_ops_def names_ok_foldl names_ok_init)

text \<open>
  C8. For a tag whose lower-cased name is a void element: \<open>__enter__\<close> on the context
  \<open>tag\<close> returns writes the opening tag in the \<open> />\<close> form and leaves both stacks
  of every fragment as they were before \<open>tag\<close>; \<open>__exit__\<close> then changes nothing;
  so \<open>render\<close> raises \<open>UnclosedTagsError\<close> afterwards exactly if it did before. In
  every store a sequence of calls can reach, a context is self-closing exactly if its
  name is a void element, \<open>__exit__\<close> on a self-closing context changes nothing, and
  a closing tag that \<open>__exit__\<close> appends is never the one of a void element.
\<close>

theorem void_element_never_closed:
  assumes "is_void name" and "frag_tag w fid name d = (cid, w1)"
  shows "ctx_enter w1 cid
         = append_part (w1\<lparr>contexts := (contexts w1)(cid := (contexts w1 cid)\<lparr>opened := True\<rparr>)\<rparr>)
             fid (''<'' @ name @ attr_str d @ '' />'')
     \<and> tag_stack (fragments (ctx_enter w1 cid) f) = tag_stack (fragments w f)
     \<and> context_stack (fragments (ctx_enter w1 cid) f) = context_stack (fragments w f)
     \<and> ctx_exit (ctx_enter w1 cid) cid = (Inr (), ctx_enter w1 cid)
     \<and> (fst (frag_render (snd (ctx_exit (ctx_enter w1 cid) cid)) f) = Inl UnclosedTagsError
          \<longleftrightarrow> fst (frag_render w f) = Inl UnclosedTagsError)
     \<and> self_closing (contexts (run_ops init_world ops) c)
         = is_void (tag_name (contexts (run_ops init_world ops) c))
     \<and> (self_closing (contexts (run_ops init_world ops) c) \<longrightarrow>
          ctx_exit (run_ops init_world ops) c = (Inr (), run_ops init_world ops))
     \<and> (\<not> self_closing (contexts (run_ops init_world ops) c) \<longrightarrow>
          parts (fragments (snd (ctx_exit (run_ops init_world ops) c))
                  (ctx_fragment (contexts (run_ops init_world ops) c)))
          = parts (fragments (ensure_opened (run_ops init_world ops) c)
                  (ctx_fragment (contexts (run_ops init_world ops) c)))
          \<or> (\<exists>n. \<not> is_void n
              \<and> parts (fragments (snd (ctx_exit (run_ops init_world ops) c))
                      (ctx_fragment (contexts (run_ops init_world ops) c)))
                = parts (fragments (ensure_opened (run_ops init_world ops) c)
                      (ctx_fragment (contexts (run_ops init_world ops) c)))
                  @ [''</'' @ n @ ''>'']))"
proof -
  note ve = void_enter_exit [OF assms]
  have r: "fst (frag_render (snd (ctx_exit (ctx_enter w1 cid) cid)) f) = Inl UnclosedTagsError
          \<longleftrightarrow> fst (frag_render w f) = Inl UnclosedTagsError"
    by (simp add: ve(4) frag_render_def ve(2))
  have ok: "names_ok (run_ops init_world ops)" by (rule names_ok_reach)
  then have flag: "self_closing (contexts (run_ops init_world ops) c)
         = is_void (tag_name (contexts (run_ops init_world ops) c))"
    by (simp add: names_ok_def)
  from ve(1) ve(2) ve(3) ve(4) r flag ctx_exit_closing [OF ok, of c] show ?thesis
    by blast
qed

lemma is_void_img: "is_void ''img''"
  by (simp add: is_void_def lower_def lower_char_def void_elements_def)

lemma w_div_attrs_facts:
  "tag_stack (fragments w_div_attrs 0) = [''div'']"
  "context_stack (fragments w_div_attrs 0) = [0]"
  "fst (frag_tag w_div_attrs 0 ''img'' img_attrs) = 1"
  unfolding w_div_attrs_def img_attrs_def by code_simp+

lemma w_div_img_render:
  \<open>fst (frag_render w_div_img 0)
   = Inr ''<div class="container" data-value="123" id="main"><img src="test.jpg" alt="Test Image" /></div>''\<close>
  unfolding w_div_img_def w_div_attrs_def img_attrs_def by code_simp

theorem void_element_never_closed_witness:
  \<open>is_void ''img''
   \<and> tag_stack (fragments (ctx_enter (snd (frag_tag w_div_attrs 0 ''img'' img_attrs)) 1) 0)
       = [''div'']
   \<and> context_stack (fragments (ctx_enter (snd (frag_tag w_div_attrs 0 ''img'' img_attrs)) 1) 0)
       = [0]
   \<and> ctx_exit (ctx_enter (snd (frag_tag w_div_attrs 0 ''img'' img_attrs)) 1) 1
       = (Inr (), ctx_enter (snd (frag_tag w_div_attrs 0 ''img'' img_attrs)) 1)
   \<and> fst (frag_render w_div_img 0)
       = Inr ''<div class="container" data-value="123" id="main"><img src="test.jpg" alt="Test Image" /></div>''\<close>
proof -
  have t: "frag_tag w_div_attrs 0 ''img'' img_attrs
           = (1, snd (frag_tag w_div_attrs 0 ''img'' img_attrs))"
    using w_div_attrs_facts(3) by (simp add: prod_eq_iff)
  note inst = void_element_never_closed [OF is_void_img t, where f = 0 and ops = "[]" and c = 0]
  from inst have a:
    "tag_stack (fragments (ctx_enter (snd (frag_tag w_div_attrs 0 ''img'' img_attrs)) 1) 0)
     = tag_stack (fragments w_div_attrs 0)"
    by blast
  from inst have b:
    "context_stack (fragments (ctx_enter (snd (frag_tag w_div_attrs 0 ''img'' img_attrs)) 1) 0)
     = context_stack (fragments w_div_attrs 0)"
    by blast
  from inst have c:
    "ctx_exit (ctx_enter (snd (frag_tag w_div_attrs 0 ''img'' img_attrs)) 1) 1
     = (Inr (), ctx_enter (snd (frag_tag w_div_attrs 0 ''img'' img_attrs)) 1)"
    by blast
  from a b c is_void_img w_div_attrs_facts(1,2) w_div_img_render
  show ?thesis by (simp only: simp_thms)
qed

section \<open>A tag that is created and never entered\<close>

text \<open>
  C4, as the source has it. \<open>tag\<close> leaves both stacks of every fragment unchanged.
  When the fragment has no open context, or the innermost one is opened already, it
  changes no fragment and no context other than the new one. When the innermost open
  context is not opened yet, \<open>tag\<close> opens it first: its opening tag is appended and
  the context is opened from then on, whether the new context is entered or not.
\<close>

theorem frag_tag_effect:
  assumes "frag_tag w fid name d = (cid, w')"
  shows "tag_stack (fragments w' f) = tag_stack (fragments w f)
     \<and> context_stack (fragments w' f) = context_stack (fragments w f)
     \<and> cid = next_context w
     \<and> (context_stack (fragments w fid) = []
          \<or> opened (contexts w (last (context_stack (fragments w fid)))) \<longrightarrow>
        fragments w' = fragments w \<and> (c \<noteq> cid \<longrightarrow> contexts w' c = contexts w c))
     \<and> (context_stack (fragments w fid) \<noteq> []
          \<and> \<not> opened (contexts w (last (context_stack (fragments w fid)))) \<longrightarrow>
        fragments w' = fragments (ensure_opened w (last (context_stack (fragments w fid))))
        \<and> (c \<noteq> cid \<longrightarrow>
             contexts w' c = contexts (ensure_opened w (last (context_stack (fragments w fid)))) c)
        \<and> (last (context_stack (fragments w fid)) \<noteq> cid \<longrightarrow>
             opened (contexts w' (last (context_stack (fragments w fid))))))"
proof -
  from assms have w': "w' = snd (frag_tag w fid name d)" by simp
  from assms have cid: "cid = next_context w"
    by (auto simp: frag_tag_def Let_def next_context_open_current)
  have s: "tag_stack (fragments w' f) = tag_stack (fragments w f)"
    "context_stack (fragments w' f) = context_stack (fragments w f)"
    unfolding w' by (rule frag_tag_stacks)+
  have eo: "opened (contexts (ensure_opened w x) x)" for x
    by (simp add: ensure_opened_def Let_def append_part_def)
  have fr: "fragments w' = fragments (open_current w fid)"
    and cx: "\<And>x. x \<noteq> cid \<Longrightarrow> contexts w' x = contexts (open_current w fid) x"
    using assms by (auto simp: frag_tag_def Let_def)
  have noop: "open_current w fid = w"
    if "context_stack (fragments w fid) = []
          \<or> opened (contexts w (last (context_stack (fragments w fid))))"
    using that by (auto simp: open_current_def ensure_opened_def Let_def)
  have mat: "open_current w fid = ensure_opened w (last (context_stack (fragments w fid)))"
    if "context_stack (fragments w fid) \<noteq> []"
    using that by (simp add: open_current_def)
  show ?thesis
    using s cid fr cx noop mat eo by auto
qed

theorem frag_tag_effect_witness:
  "opened (contexts w_div_text 0)
   \<and> last (context_stack (fragments w_div_text 0)) = 0
   \<and> fragments (snd (frag_tag w_div_text 0 ''span'' [])) = fragments w_div_text
   \<and> contexts (snd (frag_tag w_div_text 0 ''span'' [])) 0 = contexts w_div_text 0
   \<and> fst (frag_tag w_div_text 0 ''span'' []) = 1
   \<and> context_stack (fragments w_div_entered 0) \<noteq> []
   \<and> \<not> opened (contexts w_div_entered 0)
   \<and> opened (contexts (snd (frag_tag w_div_entered 0 ''span'' [])) 0)
   \<and> tag_stack (fragments (snd (frag_tag w_div_entered 0 ''span'' [])) 0)
       = tag_stack (fragments w_div_entered 0)"
proof -
  have n: "next_context w_div_text = 1" "next_context w_div_entered = 1"
    unfolding w_div_text_def w_div_entered_def by code_simp+
  have t1: "frag_tag w_div_text 0 ''span'' []
      = (fst (frag_tag w_div_text 0 ''span'' []), snd (frag_tag w_div_text 0 ''span'' []))"
    by simp
  have t2: "frag_tag w_div_entered 0 ''span'' []
      = (fst (frag_tag w_div_entered 0 ''span'' []), snd (frag_tag w_div_entered 0 ''span'' []))"
    by simp
  note i1 = frag_tag_effect [OF t1, where f = 0 and c = 0]
  note i2 = frag_tag_effect [OF t2, where f = 0 and c = 0]
  have l1: "last (context_stack (fragments w_div_text 0)) = 0"
    by (simp add: w_div_text_stack)
  have l2: "last (context_stack (fragments w_div_entered 0)) = 0"
    and ne2: "context_stack (fragments w_div_entered 0) \<noteq> []"
    by (simp_all add: w_div_entered_stack)
  from i1 n(1) have c1: "fst (frag_tag w_div_text 0 ''span'' []) = 1" by simp
  from i2 n(2) have c2: "fst (frag_tag w_div_entered 0 ''span'' []) = 1" by simp
  have h1: "context_stack (fragments w_div_text 0) = []
      \<or> opened (contexts w_div_text (last (context_stack (fragments w_div_text 0))))"
    using w_div_text_opened l1 by simp
  from i1 h1 have "fragments (snd (frag_tag w_div_text 0 ''span'' [])) = fragments w_div_text
      \<and> (0 \<noteq> fst (frag_tag w_div_text 0 ''span'' []) \<longrightarrow>
           contexts (snd (frag_tag w_div_text 0 ''span'' [])) 0 = contexts w_div_text 0)"
    by blast
  with c1 have a: "fragments (snd (frag_tag w_div_text 0 ''span'' [])) = fragments w_div_text"
    and b: "contexts (snd (frag_tag w_div_text 0 ''span'' [])) 0 = contexts w_div_text 0"
    by simp_all
  have h2: "context_stack (fragments w_div_entered 0) \<noteq> []
      \<and> \<not> opened (contexts w_div_entered (last (context_stack (fragments w_div_entered 0))))"
    using w_div_entered_pending l2 ne2 by simp
  from i2 h2 have "last (context_stack (fragments w_div_entered 0))
        \<noteq> fst (frag_tag w_div_entered 0 ''span'' []) \<longrightarrow>
      opened (contexts (snd (frag_tag w_div_entered 0 ''span'' []))
        (last (context_stack (fragments w_div_entered 0))))"
    by blast
  with c2 l2 have d: "opened (contexts (snd (frag_tag w_div_entered 0 ''span'' [])) 0)"
    by simp
  from i2 have e: "tag_stack (fragments (snd (frag_tag w_div_entered 0 ''span'' [])) 0)
       = tag_stack (fragments w_div_entered 0)"
    by blast
  from a b c1 d e l1 ne2 w_div_text_opened w_div_entered_pending
  show ?thesis by (simp only: simp_thms)
qed

text \<open>
  C4 as the specification states it fails: inside a \<open>div\<close> that is not opened yet,
  a \<open>tag("span")\<close> whose result is dropped writes \<open><div>\<close>, and \<open>attr\<close> on the
  \<open>div\<close> raises \<open>TagAlreadyOpenedError\<close> afterwards, where it succeeds without
  the call.
\<close>

theorem frag_tag_opens_parent:
  "parts (fragments w_div_entered 0) = []
   \<and> parts (fragments (snd (frag_tag w_div_entered 0 ''span'' [])) 0) = [''<div>'']
   \<and> fst (frag_attr w_div_entered 0 ''id'' (VStr ''main'')) = Inr ()
   \<and> fst (frag_attr (snd (frag_tag w_div_entered 0 ''span'' [])) 0 ''id'' (VStr ''main''))
       = Inl TagAlreadyOpenedError"
  unfolding w_div_entered_def by code_simp

end
